theory Spec2Isabelle
  imports Main "HOL-Library.AList"
begin

section \<open>The dependency graph of \<open>grapher.py\<close>\<close>

text \<open>
  \<open>generate_dependency_graph\<close> receives \<open>dep_data\<close>, a Python dict from a package name to
  the list of the names it depends on. A dict keeps its insertion order, so it is an
  association list here; \<open>dep_data.items()\<close> is the list itself and \<open>dep_data.values()\<close>
  its second components.
\<close>

type_synonym dep_data = "(string \<times> string list) list"

text \<open>
  \<open>nx.DiGraph\<close> stores nodes and edges in dicts: a node added twice is kept once, at its
  first position, and an edge added twice keeps its position and takes the new attributes.
  The only edge attribute the code sets is \<open>title\<close>.
\<close>

record digraph =
  nodes :: "string list"
  edges :: "((string \<times> string) \<times> string) list"

definition DiGraph :: digraph where
  "DiGraph = \<lparr>nodes = [], edges = []\<rparr>"

definition add_node :: "string \<Rightarrow> digraph \<Rightarrow> digraph" where
  "add_node n G = (if n \<in> set (nodes G) then G else G\<lparr>nodes := nodes G @ [n]\<rparr>)"

text \<open>\<open>G.add_edge(u, v, title=t)\<close> adds both end points when they are missing.\<close>

definition add_edge :: "string \<Rightarrow> string \<Rightarrow> string \<Rightarrow> digraph \<Rightarrow> digraph" where
  "add_edge u v t G =
     (let G1 = add_node v (add_node u G)
      in G1\<lparr>edges := AList.update (u, v) t (edges G1)\<rparr>)"

text \<open>
  \<open>top_level_deps\<close> is a Python set. It is a duplicate-free list here, in insertion order;
  Python iterates a set in an order of its own, which decides only the order in which the
  edges of the root enter the edge dict, so the theorems below speak of \<open>set\<close>s of edges.
\<close>

definition set_add :: "string \<Rightarrow> string list \<Rightarrow> string list" where
  "set_add x s = (if x \<in> set s then s else s @ [x])"

text \<open>
  \<^verbatim>\<open>any(parent in sub_deps for sub_deps in dep_data.values())\<close>
\<close>

definition is_transitive_dependency :: "dep_data \<Rightarrow> string \<Rightarrow> bool" where
  "is_transitive_dependency dep_data parent =
     list_ex (\<lambda>sub_deps. parent \<in> set sub_deps) (map snd dep_data)"

text \<open>
  The inner loop of the first pass:
  \<^verbatim>\<open>
  for child in children:
      G.add_node(child)
      G.add_edge(parent, child, title="depends on")
  \<close>
\<close>

fun add_children :: "string \<Rightarrow> string list \<Rightarrow> digraph \<Rightarrow> digraph" where
  "add_children parent [] G = G"
| "add_children parent (child # children) G =
     add_children parent children (add_edge parent child ''depends on'' (add_node child G))"

text \<open>
  The first pass, over \<open>dep_data.items()\<close>; the whole mapping is passed along because
  \<open>is_transitive_dependency\<close> looks at all of it in every round.
  \<^verbatim>\<open>
  for parent, children in dep_data.items():
      is_transitive_dependency = any(...)
      if not is_transitive_dependency:
          top_level_deps.add(parent)
      G.add_node(parent)
      for child in children: ...
  \<close>
\<close>

fun first_pass :: "dep_data \<Rightarrow> (string \<times> string list) list \<Rightarrow> string list \<times> digraph
    \<Rightarrow> string list \<times> digraph" where
  "first_pass dep_data [] (top_level_deps, G) = (top_level_deps, G)"
| "first_pass dep_data ((parent, children) # items) (top_level_deps, G) =
     first_pass dep_data items
       ((if \<not> is_transitive_dependency dep_data parent
         then set_add parent top_level_deps else top_level_deps),
        add_children parent children (add_node parent G))"

text \<open>
  \<^verbatim>\<open>
  for dep in top_level_deps:
      if dep != project_name:
           G.add_edge(project_name, dep, title="direct requirement")
  \<close>
\<close>

fun connect_top_level :: "string \<Rightarrow> string list \<Rightarrow> digraph \<Rightarrow> digraph" where
  "connect_top_level project_name [] G = G"
| "connect_top_level project_name (dep # deps) G =
     connect_top_level project_name deps
       (if dep \<noteq> project_name then add_edge project_name dep ''direct requirement'' G else G)"

text \<open>Step 1 of \<open>generate_dependency_graph\<close>: the set \<open>top_level_deps\<close> and the graph.\<close>

definition build_graph :: "string \<Rightarrow> dep_data \<Rightarrow> string list \<times> digraph" where
  "build_graph project_name dep_data =
     (case first_pass dep_data dep_data ([], DiGraph) of
        (top_level_deps, G) \<Rightarrow>
          (top_level_deps, connect_top_level project_name top_level_deps (add_node project_name G)))"

definition top_level_deps_of :: "string \<Rightarrow> dep_data \<Rightarrow> string list" where
  "top_level_deps_of project_name dep_data = fst (build_graph project_name dep_data)"

definition graph_of :: "string \<Rightarrow> dep_data \<Rightarrow> digraph" where
  "graph_of project_name dep_data = snd (build_graph project_name dep_data)"

text \<open>
  The DirectSet of the specification: the nodes that receive an edge titled
  \<open>direct requirement\<close> from the root.
\<close>

definition direct_set :: "string \<Rightarrow> digraph \<Rightarrow> string list" where
  "direct_set project_name G =
     map (snd \<circ> fst)
       (filter (\<lambda>e. fst (fst e) = project_name \<and> snd e = ''direct requirement'') (edges G))"


text \<open>
  \<open>G.edges()\<close> lists the edges source by source, the sources in node order.
\<close>

definition edges_view :: "digraph \<Rightarrow> ((string \<times> string) \<times> string) list" where
  "edges_view G = concat (map (\<lambda>u. filter (\<lambda>e. fst (fst e) = u) (edges G)) (nodes G))"

text \<open>The edge dict read as a map, and its invariant: one entry for each pair of nodes.\<close>

definition edge_map :: "digraph \<Rightarrow> (string \<times> string) \<rightharpoonup> string" where
  "edge_map G = map_of (edges G)"

definition wf_edges :: "digraph \<Rightarrow> bool" where
  "wf_edges G = distinct (map fst (edges G))"

section \<open>Exceptions, the console and the file system\<close>

text \<open>
  The exception classes that the handlers of the code tell apart, and the ones that the
  modelled code raises itself. All of them are instances of \<open>Exception\<close>;
  \<open>KeyboardInterrupt\<close> and \<open>SystemExit\<close>, which are not, are signals to the process and
  not outcomes of the calls modelled here. \<open>CalledProcessError\<close> carries \<open>e.stderr\<close>.
\<close>

datatype py_exn =
    CalledProcessError string
  | FileNotFoundError
  | ImportError
  | JSONDecodeError
  | AttributeError
  | TypeError
  | ValueError
  | ZeroDivisionError
  | OtherException string

text \<open>
  The figure handed to plotly. The coordinates of \<open>nx.spring_layout\<close> are floating-point
  values computed by networkx and are left out; what the code itself decides are the four
  lists of the node trace, the labels of the edges and the title.
\<close>

datatype tag = ProjectRoot | Community | DirectDependency | TransitiveDependency

text \<open>
  One round of the node loop appends to \<open>node_text\<close>, \<open>node_info\<close>, \<open>node_size\<close> and
  \<open>node_color\<close>. \<open>node_title\<close> and \<open>coloring_method\<close> are the loop's local variables
  \<open>title\<close> and \<open>current_coloring_method\<close>; \<open>node_tag\<close> records which branch of the
  \<open>if\<close>/\<open>elif\<close> chain ran, which is the classification tag of the specification.
\<close>

record node_attrs =
  node_text :: string
  node_info :: string
  node_size :: int
  node_color :: string
  node_title :: string
  coloring_method :: string
  node_tag :: tag

record figure =
  fig_title :: string
  fig_nodes :: "node_attrs list"
  fig_edge_labels :: "string list"

datatype document = Html figure | Png figure

record world =
  files :: "string \<rightharpoonup> document"
  stdout :: "string list"
  stderr :: "string list"

definition print_out :: "string \<Rightarrow> world \<Rightarrow> world" where
  "print_out line w = w\<lparr>stdout := stdout w @ [line]\<rparr>"

definition print_err :: "string \<Rightarrow> world \<Rightarrow> world" where
  "print_err line w = w\<lparr>stderr := stderr w @ [line]\<rparr>"

section \<open>Values parsed from JSON\<close>

datatype json =
    JNull
  | JBool bool
  | JNum int
  | JStr string
  | JArr "json list"
  | JObj "(string \<times> json) list"

text \<open>
  What the code does not own: the outcomes of the processes it starts, of the libraries it
  calls and of the interpreter. \<open>None\<close> and \<open>Inr\<close> are a normal return, \<open>Some e\<close> and
  \<open>Inl e\<close> a raise of \<open>e\<close>.
  \<^item> \<open>requirements_exists\<close>: \<open>os.path.exists('requirements.txt')\<close>;
  \<^item> \<open>run_pipreqs\<close>, \<open>run_pipdeptree\<close>: the two \<open>subprocess.run(..., check=True)\<close>
    calls, the second with the captured \<open>stdout\<close>;
  \<^item> \<open>json_loads\<close>: \<open>json.loads\<close>;
  \<^item> \<open>find_spec_community\<close>: whether \<open>importlib.util.find_spec('community')\<close> is truthy;
  \<^item> \<open>import_community\<close>: \<open>importlib.import_module('community')\<close>;
  \<^item> \<open>best_partition\<close>: \<open>community.best_partition(G.to_undirected())\<close>, a dict from node
    to community id;
  \<^item> \<open>colors\<close>: the palette \<open>plotly.colors.qualitative.Alphabet\<close>;
  \<^item> \<open>write_html\<close>, \<open>write_image\<close>: the two methods of the plotly figure, given the file
    name;
  \<^item> \<open>str_exn\<close>: the text of an exception in an f-string, \<open>{e}\<close>.
\<close>

record env =
  requirements_exists :: bool
  run_pipreqs :: "py_exn option"
  run_pipdeptree :: "py_exn + string"
  json_loads :: "string \<Rightarrow> py_exn + json"
  find_spec_community :: bool
  import_community :: "py_exn option"
  best_partition :: "digraph \<Rightarrow> py_exn + (string \<times> int) list"
  colors :: "string list"
  write_html :: "string \<Rightarrow> py_exn option"
  write_image :: "string \<Rightarrow> py_exn option"
  str_exn :: "py_exn \<Rightarrow> string"

section \<open>Formatting integers\<close>

text \<open>\<open>str\<close> of a Python \<open>int\<close>, as an f-string renders it: decimal, with a leading minus.\<close>

definition digit_char :: "nat \<Rightarrow> char" where
  "digit_char d = ''0123456789'' ! d"

fun str_nat :: "nat \<Rightarrow> string" where
  "str_nat n = (if n < 10 then [digit_char n] else str_nat (n div 10) @ [digit_char (n mod 10)])"

definition str_int :: "int \<Rightarrow> string" where
  "str_int i = (if i < 0 then CHR ''-'' # str_nat (nat (- i)) else str_nat (nat i))"

section \<open>Community detection and the node loop\<close>

text \<open>
  The except handlers of the detection block: \<open>ImportError\<close> first, then every other
  \<open>Exception\<close>. Both set \<open>community = None\<close> and print a warning.
\<close>

definition detection_failed :: "env \<Rightarrow> py_exn \<Rightarrow> world \<Rightarrow> world" where
  "detection_failed ev e w =
     (if e = ImportError
      then print_err
        ''WARNING: 'python-louvain' module failed to import. Falling back to Depth-based coloring.'' w
      else print_err
        (''WARNING: Community detection failed ('' @ str_exn ev e
           @ ''). Falling back to Depth-based coloring.'') w)"

text \<open>\<open>max(partition.values())\<close>: a \<open>ValueError\<close> on an empty dict.\<close>

definition max_values :: "(string \<times> int) list \<Rightarrow> py_exn + int" where
  "max_values part =
     (case map snd part of [] \<Rightarrow> Inl ValueError | v # vs \<Rightarrow> Inr (fold max vs v))"

text \<open>
  The detection block. Its result is whether \<open>community\<close> is not \<open>None\<close> afterwards, and
  \<open>partition\<close> (written \<open>part\<close> here), which starts as the empty dict and keeps what
  \<open>best_partition\<close> returned even when a later statement of the \<open>try\<close> raises.
  \<^verbatim>\<open>
  community = None
  partition = {}
  if importlib.util.find_spec('community'):
      try:
          community = importlib.import_module('community')
          partition = community.best_partition(G.to_undirected())
          num_communities = max(partition.values()) + 1
          colors = pcolors.qualitative.Alphabet
          print(f"INFO: Detected {num_communities} communities. ...", file=sys.stderr)
      except ImportError: ...
      except Exception as e: ...
  \<close>
\<close>

definition detect_communities :: "env \<Rightarrow> digraph \<Rightarrow> world
    \<Rightarrow> (bool \<times> (string \<times> int) list) \<times> world" where
  "detect_communities ev G w =
     (if find_spec_community ev then
        (case import_community ev of
           Some e \<Rightarrow> ((False, []), detection_failed ev e w)
         | None \<Rightarrow>
            (case best_partition ev G of
               Inl e \<Rightarrow> ((False, []), detection_failed ev e w)
             | Inr part \<Rightarrow>
                (case max_values part of
                   Inl e \<Rightarrow> ((False, part), detection_failed ev e w)
                 | Inr m \<Rightarrow>
                    ((True, part),
                     print_err (''INFO: Detected '' @ str_int (m + 1)
                        @ '' communities. Coloring nodes by community.'') w))))
      else ((False, []), w))"

text \<open>
  The part of a round of the node loop that depends on the branch taken: colour, title,
  colouring method and, for the specification, the tag of the branch. \<open>%\<close> by the length
  of an empty palette raises \<open>ZeroDivisionError\<close>; Python's \<open>%\<close> with a positive
  right operand is \<open>mod\<close> on \<open>int\<close>. The test \<open>community is not None and node in
  partition\<close> and the lookup \<open>partition[node]\<close> are one \<open>case\<close> on the entry of the node.
  \<^verbatim>\<open>
  current_coloring_method = "Depth (Fallback)"
  if node == project_name:
      color = '#FFD700'; title = f"Root: {node}"
      current_coloring_method = "Project Root"
  elif community is not None and node in partition:
      community_id = partition[node]
      color_index = community_id % len(colors)
      color = colors[color_index]
      title = f"Community {community_id}: {node}"
      current_coloring_method = "Community"
  elif node in top_level_deps:
      color = '#8A2BE2'; title = f"Direct Dep: {node}"
  else:
      color = '#4169E1'; title = f"Transitive Dep: {node}"
  \<close>
\<close>

definition assign_color :: "string list \<Rightarrow> string \<Rightarrow> bool \<Rightarrow> (string \<times> int) list
    \<Rightarrow> string list \<Rightarrow> string \<Rightarrow> py_exn + (string \<times> string \<times> string \<times> tag)" where
  "assign_color palette project_name community part top_level_deps node =
     (if node = project_name then
        Inr (''#FFD700'', ''Root: '' @ node, ''Project Root'', ProjectRoot)
      else
        (case (if community then map_of part node else None) of
           Some community_id \<Rightarrow>
            if length palette = 0 then Inl ZeroDivisionError
            else
              Inr (palette ! nat (community_id mod int (length palette)),
                   ''Community '' @ str_int community_id @ '': '' @ node,
                   ''Community'', Community)
         | None \<Rightarrow>
            if node \<in> set top_level_deps then
              Inr (''#8A2BE2'', ''Direct Dep: '' @ node, ''Depth (Fallback)'', DirectDependency)
            else
              Inr (''#4169E1'', ''Transitive Dep: '' @ node, ''Depth (Fallback)'',
                   TransitiveDependency)))"

text \<open>
  One round of the node loop.
  \<^verbatim>\<open>
  size = 3 if node == project_name else (2 if node in top_level_deps else 1)
  ...
  node_text.append(f"<b>{node}</b>")
  node_info.append(f"{node}<br>{title}<br>Coloring Method: {current_coloring_method}")
  node_size.append(size * 10)
  node_color.append(color)
  \<close>
\<close>

definition classify_node :: "string list \<Rightarrow> string \<Rightarrow> bool \<Rightarrow> (string \<times> int) list
    \<Rightarrow> string list \<Rightarrow> string \<Rightarrow> py_exn + node_attrs" where
  "classify_node palette project_name community part top_level_deps node =
     (let size = (if node = project_name then 3
                  else if node \<in> set top_level_deps then 2 else (1::int))
      in case assign_color palette project_name community part top_level_deps node of
           Inl e \<Rightarrow> Inl e
         | Inr (color, title, current_coloring_method, t) \<Rightarrow>
             Inr \<lparr>node_text = ''<b>'' @ node @ ''</b>'',
                  node_info = node @ ''<br>'' @ title @ ''<br>Coloring Method: ''
                     @ current_coloring_method,
                  node_size = size * 10,
                  node_color = color,
                  node_title = title,
                  coloring_method = current_coloring_method,
                  node_tag = t\<rparr>)"

text \<open>The node loop, \<open>for node in G.nodes()\<close>: the first raise ends it.\<close>

fun classify_nodes :: "string list \<Rightarrow> string \<Rightarrow> bool \<Rightarrow> (string \<times> int) list
    \<Rightarrow> string list \<Rightarrow> string list \<Rightarrow> py_exn + node_attrs list" where
  "classify_nodes palette project_name community part top_level_deps [] = Inr []"
| "classify_nodes palette project_name community part top_level_deps (node # ns) =
     (case classify_node palette project_name community part top_level_deps node of
        Inl e \<Rightarrow> Inl e
      | Inr a \<Rightarrow>
         (case classify_nodes palette project_name community part top_level_deps ns of
            Inl e \<Rightarrow> Inl e
          | Inr as \<Rightarrow> Inr (a # as)))"

section \<open>The module constants\<close>

definition MOCK_DEPENDENCY_DATA :: dep_data where
  "MOCK_DEPENDENCY_DATA =
     [(''python-library-graph'', [''pytest'', ''networkx'', ''plotly'', ''kaleido'']),
      (''pytest'', [''iniconfig'', ''packaging'']),
      (''networkx'', [''decorator'']),
      (''plotly'', [''numpy'', ''tenacity'']),
      (''kaleido'', [''svgwrite'']),
      (''iniconfig'', []),
      (''packaging'', []),
      (''decorator'', []),
      (''numpy'', []),
      (''tenacity'', []),
      (''svgwrite'', [])]"

definition MOCK_DEPENDENCY_SIZES :: "(string \<times> string) list" where
  "MOCK_DEPENDENCY_SIZES =
     [(''pytest'', ''250 KB''), (''networkx'', ''4.1 MB''), (''plotly'', ''10 MB''),
      (''kaleido'', ''2.2 MB''), (''iniconfig'', ''50 KB''), (''packaging'', ''300 KB''),
      (''decorator'', ''80 KB''), (''numpy'', ''25 MB''), (''tenacity'', ''120 KB''),
      (''svgwrite'', ''60 KB'')]"

section \<open>\<open>generate_dependency_graph\<close>\<close>

text \<open>
  The label of an edge:
  \<^verbatim>\<open>
  size_label = MOCK_DEPENDENCY_SIZES.get(dep_name, "Unknown Size")
  edge_labels.append(f"<b>{size_label}</b>")
  \<close>
\<close>

definition edge_label :: "(string \<times> string) \<times> string \<Rightarrow> string" where
  "edge_label edge =
     ''<b>'' @ (case map_of MOCK_DEPENDENCY_SIZES (snd (fst edge)) of
                  None \<Rightarrow> ''Unknown Size'' | Some size_label \<Rightarrow> size_label) @ ''</b>''"

text \<open>
  Steps 6 and 7: the HTML file is written first, and a raise of \<open>write_html\<close> is not
  caught; then the image is exported inside \<open>try\<close>/\<open>except Exception\<close>. A call that
  raises is taken to leave the files as they were.
  \<^verbatim>\<open>
  fig.write_html(html_filename, auto_open=False, include_plotlyjs='cdn')
  print(f"Interactive 3D graph saved to: {html_filename}")
  print("Capturing static preview using kaleido...")
  try:
      fig.write_image(screenshot_filename, format='png', width=2000, height=2000,
                      engine='kaleido')
      print(f"Static preview saved to: {screenshot_filename}")
  except Exception as e:
      print(f"WARNING: Could not generate screenshot using kaleido. ... Error: {e}",
            file=sys.stderr)
  \<close>
\<close>

definition screenshot_warning :: "env \<Rightarrow> py_exn \<Rightarrow> string" where
  "screenshot_warning ev e =
     ''WARNING: Could not generate screenshot using kaleido. ''
       @ ''Please ensure 'pip install kaleido' is run. Error: '' @ str_exn ev e"

definition export_image :: "env \<Rightarrow> figure \<Rightarrow> string \<Rightarrow> world \<Rightarrow> world" where
  "export_image ev fig screenshot_filename w =
     (case write_image ev screenshot_filename of
        None \<Rightarrow>
          print_out (''Static preview saved to: '' @ screenshot_filename)
            (w\<lparr>files := (files w)(screenshot_filename \<mapsto> Png fig)\<rparr>)
      | Some e \<Rightarrow> print_err (screenshot_warning ev e) w)"

definition save_outputs :: "env \<Rightarrow> figure \<Rightarrow> string \<Rightarrow> string \<Rightarrow> world
    \<Rightarrow> (py_exn + unit) \<times> world" where
  "save_outputs ev fig html_filename screenshot_filename w =
     (case write_html ev html_filename of
        Some e \<Rightarrow> (Inl e, w)
      | None \<Rightarrow>
         (let w1 = print_out (''Interactive 3D graph saved to: '' @ html_filename)
                     (w\<lparr>files := (files w)(html_filename \<mapsto> Html fig)\<rparr>);
              w2 = print_out ''Capturing static preview using kaleido...'' w1
          in (Inr (), export_image ev fig screenshot_filename w2)))"

text \<open>
  The whole function: the graph, the labels of the edges, the detection block, the node
  loop, the figure and the two files. The result is \<open>Inr ()\<close> when the function
  returns and \<open>Inl e\<close> when \<open>e\<close> reaches the caller.
\<close>

definition figure_title :: "string \<Rightarrow> string" where
  "figure_title project_name =
     ''<span style='' @ [CHR 0x22] @ ''color:white; font-size:18px;'' @ [CHR 0x22]
       @ ''><b>Interactive 3D Dependency Graph: '' @ project_name @ ''</b></span>''"

definition generate_dependency_graph :: "env \<Rightarrow> string \<Rightarrow> dep_data \<Rightarrow> string \<Rightarrow> string
    \<Rightarrow> world \<Rightarrow> (py_exn + unit) \<times> world" where
  "generate_dependency_graph ev project_name dep_data html_filename screenshot_filename w =
     (case build_graph project_name dep_data of
        (top_level_deps, G) \<Rightarrow>
         (let edge_labels = map edge_label (edges_view G)
          in case detect_communities ev G w of
               ((community, part), w1) \<Rightarrow>
                (case classify_nodes (colors ev) project_name community part top_level_deps
                        (nodes G) of
                   Inl e \<Rightarrow> (Inl e, w1)
                 | Inr node_trace \<Rightarrow>
                    save_outputs ev
                      \<lparr>fig_title = figure_title project_name, fig_nodes = node_trace,
                       fig_edge_labels = edge_labels\<rparr>
                      html_filename screenshot_filename w1)))"

text \<open>
  Step 4 seen on its own: the entries of the node trace, each with the node it was
  computed for, as \<open>generate_dependency_graph\<close> computes them before it builds the figure.
\<close>

definition node_trace :: "env \<Rightarrow> string \<Rightarrow> dep_data \<Rightarrow> world
    \<Rightarrow> py_exn + (string \<times> node_attrs) list" where
  "node_trace ev project_name dep_data w =
     (case build_graph project_name dep_data of
        (top_level_deps, G) \<Rightarrow>
         (case detect_communities ev G w of
            ((community, part), w1) \<Rightarrow>
             (case classify_nodes (colors ev) project_name community part top_level_deps
                     (nodes G) of
                Inl e \<Rightarrow> Inl e
              | Inr as \<Rightarrow> Inr (zip (nodes G) as))))"

section \<open>\<open>resolve_dependencies\<close> of \<open>grapher.py\<close>\<close>

text \<open>
  What Python does with the values that \<open>json.loads\<close> returns. The JSON numbers here
  are the integers; pipdeptree prints none, and a float would behave as an integer does
  in every operation below.
  \<^item> \<open>x.get(key, default)\<close> exists on a dict only; any other value raises
    \<open>AttributeError\<close>;
  \<^item> \<open>for y in x\<close> runs over the items of a list, the keys of a dict and the characters
    of a string; any other value raises \<open>TypeError\<close>;
  \<^item> \<open>if x\<close> is false for \<open>None\<close>, \<open>False\<close>, \<open>0\<close> and the empty string, list and dict;
  \<^item> a list or a dict is not hashable: it raises \<open>TypeError\<close> as a dict key;
  \<^item> as dict keys \<open>True\<close> and \<open>1\<close> are equal, and so are \<open>False\<close> and \<open>0\<close>.
\<close>

definition py_get :: "json \<Rightarrow> string \<Rightarrow> json \<Rightarrow> py_exn + json" where
  "py_get x key dflt =
     (case x of
        JObj kvs \<Rightarrow> (case map_of kvs key of None \<Rightarrow> Inr dflt | Some v \<Rightarrow> Inr v)
      | _ \<Rightarrow> Inl AttributeError)"

definition py_iter :: "json \<Rightarrow> py_exn + json list" where
  "py_iter x =
     (case x of
        JArr xs \<Rightarrow> Inr xs
      | JObj kvs \<Rightarrow> Inr (map (JStr \<circ> fst) kvs)
      | JStr s \<Rightarrow> Inr (map (\<lambda>c. JStr [c]) s)
      | _ \<Rightarrow> Inl TypeError)"

definition truthy :: "json \<Rightarrow> bool" where
  "truthy x =
     (case x of
        JNull \<Rightarrow> False
      | JBool b \<Rightarrow> b
      | JNum n \<Rightarrow> n \<noteq> 0
      | JStr s \<Rightarrow> s \<noteq> []
      | JArr xs \<Rightarrow> xs \<noteq> []
      | JObj kvs \<Rightarrow> kvs \<noteq> [])"

definition hashable :: "json \<Rightarrow> bool" where
  "hashable x = (case x of JArr _ \<Rightarrow> False | JObj _ \<Rightarrow> False | _ \<Rightarrow> True)"

definition key_eq :: "json \<Rightarrow> json \<Rightarrow> bool" where
  "key_eq a b =
     (case (a, b) of
        (JBool p, JNum n) \<Rightarrow> n = (if p then 1 else 0)
      | (JNum n, JBool p) \<Rightarrow> n = (if p then 1 else 0)
      | _ \<Rightarrow> a = b)"

type_synonym py_dict = "(json \<times> json list) list"

text \<open>\<open>d[k] = v\<close>: an equal key keeps its place and its first spelling.\<close>

fun dict_set :: "json \<Rightarrow> json list \<Rightarrow> py_dict \<Rightarrow> py_dict" where
  "dict_set k v [] = [(k, v)]"
| "dict_set k v ((k', v') # d) =
     (if key_eq k k' then (k', v) # d else (k', v') # dict_set k v d)"

text \<open>
  \<^verbatim>\<open>[dep.get('key') for dep in package_info.get('dependencies', []) if dep.get('key')]\<close>
  over the items that the iteration yields.
\<close>

fun dependency_keys :: "json list \<Rightarrow> py_exn + json list" where
  "dependency_keys [] = Inr []"
| "dependency_keys (dep # deps) =
     (case py_get dep ''key'' JNull of
        Inl e \<Rightarrow> Inl e
      | Inr k \<Rightarrow>
         (case dependency_keys deps of
            Inl e \<Rightarrow> Inl e
          | Inr ks \<Rightarrow> Inr (if truthy k then k # ks else ks)))"

text \<open>
  One round of the loop over \<open>tree_list\<close>:
  \<^verbatim>\<open>
  package_name = package_info.get('package', {}).get('key')
  if package_name:
      dependencies = [...]
      dependency_map[package_name] = dependencies
  \<close>
\<close>

definition add_package :: "json \<Rightarrow> py_dict \<Rightarrow> py_exn + py_dict" where
  "add_package package_info dependency_map =
     (case py_get package_info ''package'' (JObj []) of
        Inl e \<Rightarrow> Inl e
      | Inr package \<Rightarrow>
         (case py_get package ''key'' JNull of
            Inl e \<Rightarrow> Inl e
          | Inr package_name \<Rightarrow>
             if truthy package_name then
               (case py_get package_info ''dependencies'' (JArr []) of
                  Inl e \<Rightarrow> Inl e
                | Inr deps \<Rightarrow>
                   (case py_iter deps of
                      Inl e \<Rightarrow> Inl e
                    | Inr items \<Rightarrow>
                       (case dependency_keys items of
                          Inl e \<Rightarrow> Inl e
                        | Inr dependencies \<Rightarrow>
                           if hashable package_name
                           then Inr (dict_set package_name dependencies dependency_map)
                           else Inl TypeError)))
             else Inr dependency_map))"

fun add_packages :: "json list \<Rightarrow> py_dict \<Rightarrow> py_exn + py_dict" where
  "add_packages [] dependency_map = Inr dependency_map"
| "add_packages (package_info # rest) dependency_map =
     (case add_package package_info dependency_map of
        Inl e \<Rightarrow> Inl e
      | Inr dependency_map' \<Rightarrow> add_packages rest dependency_map')"

definition transform_tree :: "json \<Rightarrow> py_exn + py_dict" where
  "transform_tree tree_list =
     (case py_iter tree_list of Inl e \<Rightarrow> Inl e | Inr items \<Rightarrow> add_packages items [])"

text \<open>
  The body of the \<open>try\<close>: run pipdeptree, parse its output, build the dict. The
  assignment to \<open>current_project_name\<close> near its end sits in a \<open>try\<close> with a bare
  \<open>except\<close> and its value is never used.
\<close>

definition query_pipdeptree :: "env \<Rightarrow> py_exn + py_dict" where
  "query_pipdeptree ev =
     (case run_pipdeptree ev of
        Inl e \<Rightarrow> Inl e
      | Inr out \<Rightarrow>
         (case json_loads ev out of
            Inl e \<Rightarrow> Inl e
          | Inr tree_list \<Rightarrow> transform_tree tree_list))"

text \<open>
  Step 0: when \<open>requirements.txt\<close> is missing, pipreqs is run, and of what it raises only
  \<open>CalledProcessError\<close> and \<open>FileNotFoundError\<close> are caught.
\<close>

definition ensure_requirements :: "env \<Rightarrow> world \<Rightarrow> (py_exn + unit) \<times> world" where
  "ensure_requirements ev w =
     (if \<not> requirements_exists ev then
        (let w1 = print_err
                    (''INFO: '' @ [CHR 0x27] @ ''requirements.txt'' @ [CHR 0x27]
                       @ '' not found. Generating using pipreqs...'') w
         in case run_pipreqs ev of
              None \<Rightarrow>
                (Inr (), print_err
                   (''INFO: Successfully generated '' @ [CHR 0x27] @ ''requirements.txt''
                      @ [CHR 0x27] @ ''.'') w1)
            | Some (CalledProcessError err) \<Rightarrow>
                (Inr (), print_err
                   (''WARNING: Failed to run pipreqs. Please ensure '' @ [CHR 0x27]
                      @ ''pip install pipreqs'' @ [CHR 0x27] @ '' is run. Details: '' @ err) w1)
            | Some FileNotFoundError \<Rightarrow>
                (Inr (), print_err
                   (''WARNING: '' @ [CHR 0x27] @ ''pipreqs'' @ [CHR 0x27]
                      @ '' command not found. Please install it with '' @ [CHR 0x27]
                      @ ''pip install pipreqs'' @ [CHR 0x27] @ ''.'') w1)
            | Some e \<Rightarrow> (Inl e, w1))
      else (Inr (), w))"

text \<open>The fallback mapping as the Python value it is: a dict from strings to lists of strings.\<close>

definition py_dict_of :: "dep_data \<Rightarrow> py_dict" where
  "py_dict_of d = map (\<lambda>(k, vs). (JStr k, map JStr vs)) d"

text \<open>The two handlers of the \<open>try\<close>: both print and return \<open>MOCK_DEPENDENCY_DATA\<close>.\<close>

definition fall_back :: "env \<Rightarrow> py_exn \<Rightarrow> world \<Rightarrow> py_dict \<times> world" where
  "fall_back ev e w =
     (py_dict_of MOCK_DEPENDENCY_DATA,
      print_err ''--- FALLING BACK TO MOCK DATA ---''
        (case e of
           CalledProcessError err \<Rightarrow>
             print_err
               (''ERROR: Failed to run pipdeptree. Make sure '' @ [CHR 0x27]
                  @ ''pip install pipdeptree'' @ [CHR 0x27] @ '' is run. Details: '' @ err) w
         | _ \<Rightarrow> print_err (''ERROR during dependency resolution: '' @ str_exn ev e) w))"

definition resolve_dependencies :: "env \<Rightarrow> world \<Rightarrow> (py_exn + py_dict) \<times> world" where
  "resolve_dependencies ev w =
     (case ensure_requirements ev w of
        (Inl e, w1) \<Rightarrow> (Inl e, w1)
      | (Inr u, w1) \<Rightarrow>
         (case query_pipdeptree ev of
            Inr dependency_map \<Rightarrow> (Inr dependency_map, w1)
          | Inl e \<Rightarrow> (case fall_back ev e w1 of (d, w2) \<Rightarrow> (Inr d, w2))))"

section \<open>The command line: \<open>__main__.py\<close>\<close>

text \<open>
  \<open>__main__.py\<close> imports \<open>generate_dependency_graph\<close> and \<open>MOCK_DEPENDENCY_DATA\<close> from
  \<open>grapher\<close> and defines a \<open>resolve_dependencies\<close> of its own, which \<open>main\<close> calls.
  \<^verbatim>\<open>
  def resolve_dependencies():
      print("--- WARNING: Using MOCK Dependency Data ---", file=sys.stderr)
      return MOCK_DEPENDENCY_DATA
  \<close>
\<close>

definition main_resolve_dependencies :: "world \<Rightarrow> dep_data \<times> world" where
  "main_resolve_dependencies w =
     (MOCK_DEPENDENCY_DATA, print_err ''--- WARNING: Using MOCK Dependency Data ---'' w)"

text \<open>The parsed command line: \<open>args.project_name\<close> and \<open>args.output_prefix\<close>.\<close>

record args =
  args_project_name :: string
  args_output_prefix :: string

definition report_results :: "string \<Rightarrow> string \<Rightarrow> world \<Rightarrow> world" where
  "report_results html_file screenshot_file w =
     print_out ''----------------------------------------------------''
       (print_out (''  - Static Preview:    '' @ screenshot_file)
         (print_out (''  - Interactive Graph: '' @ html_file)
           (print_out ''Results are ready:''
             (print_out ([CHR 0x0A] @ ''----------------------------------------------------'')
               w))))"

definition main :: "env \<Rightarrow> args \<Rightarrow> world \<Rightarrow> (py_exn + unit) \<times> world" where
  "main ev a w =
     (let html_file = args_output_prefix a @ ''.html'';
          screenshot_file = args_output_prefix a @ ''_preview.png''
      in case main_resolve_dependencies w of
           (dependency_data, w1) \<Rightarrow>
             (case generate_dependency_graph ev (args_project_name a) dependency_data
                     html_file screenshot_file w1 of
                (Inl e, w2) \<Rightarrow> (Inl e, w2)
              | (Inr u, w2) \<Rightarrow> (Inr (), report_results html_file screenshot_file w2)))"

section \<open>The two scenarios of the specification\<close>



text \<open>What a test reads from an entry of the node trace: the node, its colour and its tag.\<close>

definition color_and_tag :: "string \<times> node_attrs \<Rightarrow> string \<times> string \<times> tag" where
  "color_and_tag entry = (fst entry, node_color (snd entry), node_tag (snd entry))"

section \<open>Properties of the graph builder\<close>

lemma edges_add_node [simp]: "edges (add_node n G) = edges G"
  by (simp add: add_node_def)

lemma set_nodes_add_node [simp]: "set (nodes (add_node n G)) = insert n (set (nodes G))"
  by (auto simp: add_node_def)

lemma distinct_nodes_add_node [simp]: "distinct (nodes (add_node n G)) = distinct (nodes G)"
  by (simp add: add_node_def)

lemma edges_add_edge [simp]: "edges (add_edge u v t G) = AList.update (u, v) t (edges G)"
  by (simp add: add_edge_def Let_def)

lemma set_nodes_add_edge [simp]:
  "set (nodes (add_edge u v t G)) = insert u (insert v (set (nodes G)))"
  by (auto simp: add_edge_def Let_def)

lemma distinct_nodes_add_edge [simp]:
  "distinct (nodes (add_edge u v t G)) = distinct (nodes G)"
  by (simp add: add_edge_def Let_def)

lemma set_set_add [simp]: "set (set_add x s) = insert x (set s)"
  by (auto simp: set_add_def)

lemma distinct_set_add [simp]: "distinct (set_add x s) = distinct s"
  by (simp add: set_add_def)

lemma wf_add_node [simp]: "wf_edges (add_node n G) = wf_edges G"
  by (simp add: wf_edges_def)

lemma wf_add_edge [simp]: "wf_edges G \<Longrightarrow> wf_edges (add_edge u v t G)"
  by (simp add: wf_edges_def distinct_update)

lemma edge_map_add_node [simp]: "edge_map (add_node n G) = edge_map G"
  by (simp add: edge_map_def)

lemma edge_map_add_edge [simp]: "edge_map (add_edge u v t G) = (edge_map G)((u, v) \<mapsto> t)"
  by (simp add: edge_map_def update_conv')

lemma wf_DiGraph [simp]: "wf_edges DiGraph"
  by (simp add: wf_edges_def DiGraph_def)

lemma edge_map_DiGraph [simp]: "edge_map DiGraph = Map.empty"
  by (simp add: edge_map_def DiGraph_def)

text \<open>The inner loop adds one \<open>depends on\<close> edge for each child and nothing else.\<close>

lemma add_children_wf: "wf_edges G \<Longrightarrow> wf_edges (add_children p cs G)"
  by (induction cs arbitrary: G) simp_all

lemma add_children_edge_map:
  "edge_map (add_children p cs G) k =
     (if \<exists>c \<in> set cs. k = (p, c) then Some ''depends on'' else edge_map G k)"
  by (induction cs arbitrary: G) auto

lemma add_children_nodes:
  "p \<in> set (nodes G) \<Longrightarrow> set (nodes (add_children p cs G)) = set (nodes G) \<union> set cs"
  by (induction cs arbitrary: G) auto

lemma add_children_distinct: "distinct (nodes (add_children p cs G)) = distinct (nodes G)"
  by (induction cs arbitrary: G) auto

text \<open>The first pass: its edges, its nodes and the set it collects.\<close>

lemma first_pass_wf: "wf_edges G \<Longrightarrow> wf_edges (snd (first_pass dd items (tops, G)))"
  by (induction items arbitrary: tops G) (auto simp: add_children_wf)

lemma first_pass_edge_map:
  "edge_map (snd (first_pass dd items (tops, G))) k =
     (if \<exists>(p, cs) \<in> set items. \<exists>c \<in> set cs. k = (p, c)
      then Some ''depends on'' else edge_map G k)"
  by (induction items arbitrary: tops G) (auto simp: add_children_edge_map)

lemma first_pass_top:
  "set (fst (first_pass dd items (tops, G))) =
     set tops \<union> {p \<in> fst ` set items. \<not> is_transitive_dependency dd p}"
  by (induction items arbitrary: tops G) (force split: if_splits)+

lemma first_pass_top_distinct:
  "distinct tops \<Longrightarrow> distinct (fst (first_pass dd items (tops, G)))"
  by (induction items arbitrary: tops G) auto

lemma first_pass_nodes:
  "set (nodes (snd (first_pass dd items (tops, G)))) =
     set (nodes G) \<union> set (map fst items) \<union> set (concat (map snd items))"
  by (induction items arbitrary: tops G) (force simp: add_children_nodes)+

lemma first_pass_nodes_distinct:
  "distinct (nodes (snd (first_pass dd items (tops, G)))) = distinct (nodes G)"
  by (induction items arbitrary: tops G) (auto simp: add_children_distinct)

text \<open>The second loop adds the edges of the root and touches no other edge.\<close>

lemma connect_wf: "wf_edges G \<Longrightarrow> wf_edges (connect_top_level r deps G)"
  by (induction deps arbitrary: G) simp_all

lemma connect_edge_map:
  "edge_map (connect_top_level r deps G) k =
     (if \<exists>d \<in> set deps. d \<noteq> r \<and> k = (r, d)
      then Some ''direct requirement'' else edge_map G k)"
  by (induction deps arbitrary: G) auto

lemma connect_nodes:
  "r \<in> set (nodes G) \<Longrightarrow>
     set (nodes (connect_top_level r deps G)) = set (nodes G) \<union> set deps"
  by (induction deps arbitrary: G) auto

lemma connect_nodes_distinct:
  "distinct (nodes (connect_top_level r deps G)) = distinct (nodes G)"
  by (induction deps arbitrary: G) auto

lemma direct_set_iff:
  "wf_edges G \<Longrightarrow>
     v \<in> set (direct_set r G) \<longleftrightarrow> edge_map G (r, v) = Some ''direct requirement''"
  unfolding direct_set_def edge_map_def wf_edges_def
  by (force simp: image_iff)


lemma build_graph_split:
  "build_graph r dd =
     (fst (first_pass dd dd ([], DiGraph)),
      connect_top_level r (fst (first_pass dd dd ([], DiGraph)))
        (add_node r (snd (first_pass dd dd ([], DiGraph)))))"
  by (simp add: build_graph_def split: prod.split)

lemma wf_graph_of: "wf_edges (graph_of r dd)"
  by (simp add: graph_of_def build_graph_split connect_wf first_pass_wf)


lemma first_pass_titles:
  "edge_map (snd (first_pass dd dd ([], DiGraph))) k \<noteq> Some ''direct requirement''"
  by (simp add: first_pass_edge_map)

text \<open>
  The DirectSet read off the finished graph is the set \<open>top_level_deps\<close> without the
  root: an edge of the first pass is never retitled into a direct requirement that the
  second loop did not add.
\<close>

lemma direct_set_graph_of:
  "v \<in> set (direct_set r (graph_of r dd)) \<longleftrightarrow> v \<in> set (top_level_deps_of r dd) \<and> v \<noteq> r"
proof -
  have "v \<in> set (direct_set r (graph_of r dd)) \<longleftrightarrow>
        edge_map (graph_of r dd) (r, v) = Some ''direct requirement''"
    by (rule direct_set_iff [OF wf_graph_of])
  also have "\<dots> \<longleftrightarrow> v \<in> set (top_level_deps_of r dd) \<and> v \<noteq> r"
    using first_pass_titles [of dd "(r, v)"]
    by (auto simp: graph_of_def top_level_deps_of_def build_graph_split connect_edge_map)
  finally show ?thesis .
qed


lemma graph_of_nodes:
  "set (nodes (graph_of r dd)) = insert r (fst ` set dd \<union> (\<Union>cs \<in> snd ` set dd. set cs))"
  by (auto simp: graph_of_def build_graph_split connect_nodes first_pass_nodes first_pass_top
      DiGraph_def)

lemma graph_of_nodes_distinct: "distinct (nodes (graph_of r dd))"
  by (simp add: graph_of_def build_graph_split connect_nodes_distinct first_pass_nodes_distinct
      DiGraph_def)

section \<open>The claims about the graph builder\<close>

text \<open>
  C9. Given an empty dependency mapping, graph building raises no error (the builder is
  a total function with no error result) and produces a graph with exactly one node, the
  root, and no edges; the set of top-level dependencies is empty.
\<close>

theorem empty_mapping_gives_root_only:
  "build_graph project_name [] = ([], \<lparr>nodes = [project_name], edges = []\<rparr>)
   \<and> length (nodes (graph_of project_name [])) = 1
   \<and> direct_set project_name (graph_of project_name []) = []"
  by (simp add: build_graph_def graph_of_def DiGraph_def add_node_def direct_set_def)








section \<open>Properties of the node loop\<close>

lemma assign_color_root:
  "assign_color palette r community part tops r =
     Inr (''#FFD700'', ''Root: '' @ r, ''Project Root'', ProjectRoot)"
  by (simp add: assign_color_def)

lemma assign_color_fallback:
  "n \<noteq> r \<Longrightarrow>
   assign_color palette r False part tops n =
     (if n \<in> set tops
      then Inr (''#8A2BE2'', ''Direct Dep: '' @ n, ''Depth (Fallback)'', DirectDependency)
      else Inr (''#4169E1'', ''Transitive Dep: '' @ n, ''Depth (Fallback)'',
                TransitiveDependency))"
  by (simp add: assign_color_def)

lemma assign_color_community:
  "n \<noteq> r \<Longrightarrow> map_of part n = Some cid \<Longrightarrow> palette \<noteq> [] \<Longrightarrow>
   assign_color palette r True part tops n =
     Inr (palette ! nat (cid mod int (length palette)),
          ''Community '' @ str_int cid @ '': '' @ n, ''Community'', Community)"
  by (simp add: assign_color_def)

lemma assign_color_total:
  "palette \<noteq> [] \<Longrightarrow> \<exists>c. assign_color palette r community part tops n = Inr c"
  by (auto simp: assign_color_def split: option.split)

lemma assign_color_tag:
  "assign_color palette r community part tops n = Inr (color, title, method, t) \<Longrightarrow>
     (t = ProjectRoot \<longleftrightarrow> n = r)"
  by (auto simp: assign_color_def split: if_splits option.splits)

lemma classify_node_total:
  "palette \<noteq> [] \<Longrightarrow> \<exists>a. classify_node palette r community part tops n = Inr a"
  using assign_color_total [of palette r community part tops n]
  by (auto simp: classify_node_def Let_def split: prod.split)

lemma classify_node_tag:
  "classify_node palette r community part tops n = Inr a \<Longrightarrow>
     (node_tag a = ProjectRoot \<longleftrightarrow> n = r)"
  by (auto simp: classify_node_def Let_def split: sum.splits prod.splits
      dest: assign_color_tag)

lemma classify_nodes_Inr:
  "classify_nodes palette r community part tops ns = Inr as \<Longrightarrow>
     length as = length ns
     \<and> (\<forall>i < length ns. classify_node palette r community part tops (ns ! i) = Inr (as ! i))"
proof (induction ns arbitrary: as)
  case Nil
  then show ?case by simp
next
  case (Cons n ns)
  then obtain a as' where a: "classify_node palette r community part tops n = Inr a"
    and as': "classify_nodes palette r community part tops ns = Inr as'"
    and eq: "as = a # as'"
    by (auto split: sum.splits)
  from Cons.IH [OF as'] a eq show ?case
    by (auto simp: nth_Cons split: nat.split)
qed

lemma classify_nodes_total:
  "palette \<noteq> [] \<Longrightarrow> \<exists>as. classify_nodes palette r community part tops ns = Inr as"
proof (induction ns)
  case Nil
  then show ?case by simp
next
  case (Cons n ns)
  then obtain as where "classify_nodes palette r community part tops ns = Inr as" by blast
  moreover obtain a where "classify_node palette r community part tops n = Inr a"
    using classify_node_total [OF Cons.prems] by blast
  ultimately show ?case by simp
qed

lemma classify_nodes_map:
  "(\<And>n. n \<in> set ns \<Longrightarrow> classify_node palette r community part tops n = Inr (f n)) \<Longrightarrow>
     classify_nodes palette r community part tops ns = Inr (map f ns)"
  by (induction ns) simp_all

text \<open>The detection block when the module is not installed.\<close>

lemma detect_communities_unavailable:
  "\<not> find_spec_community ev \<Longrightarrow> detect_communities ev G w = ((False, []), w)"
  by (simp add: detect_communities_def)

lemma detect_communities_failed:
  "import_community ev = Some e \<or> (\<exists>e'. best_partition ev G = Inl e') \<Longrightarrow>
     fst (fst (detect_communities ev G w)) = False"
  by (auto simp: detect_communities_def split: option.split sum.split)

lemma detect_communities_files: "files (snd (detect_communities ev G w)) = files w"
  by (simp add: detect_communities_def detection_failed_def print_err_def
      split: option.split sum.split)

text \<open>Without a community partition no round of the node loop raises.\<close>

lemma classify_node_fallback:
  "\<exists>a. classify_node palette r False part tops n = Inr a
     \<and> (node_color a, node_tag a) =
        (if n = r then (''#FFD700'', ProjectRoot)
         else if n \<in> set tops then (''#8A2BE2'', DirectDependency)
         else (''#4169E1'', TransitiveDependency))"
  by (simp add: classify_node_def assign_color_def)

lemma zip_map_same: "map g (zip ns (map f ns)) = map (\<lambda>n. g (n, f n)) ns"
  by (induction ns) simp_all

lemma build_graph_pair:
  "build_graph r dd = (top_level_deps_of r dd, graph_of r dd)"
  by (simp add: top_level_deps_of_def graph_of_def)

lemma node_trace_fallback:
  assumes "\<not> find_spec_community ev"
  shows "map_sum id (map color_and_tag) (node_trace ev r dd w) =
     Inr (map (\<lambda>n. (n, if n = r then (''#FFD700'', ProjectRoot)
                        else if n \<in> set (top_level_deps_of r dd)
                        then (''#8A2BE2'', DirectDependency)
                        else (''#4169E1'', TransitiveDependency)))
            (nodes (graph_of r dd)))"
proof -
  define f where
    "f n = projr (classify_node (colors ev) r False [] (top_level_deps_of r dd) n)" for n
  have f: "classify_node (colors ev) r False [] (top_level_deps_of r dd) n = Inr (f n)"
    and entry: "(node_color (f n), node_tag (f n)) =
        (if n = r then (''#FFD700'', ProjectRoot)
         else if n \<in> set (top_level_deps_of r dd) then (''#8A2BE2'', DirectDependency)
         else (''#4169E1'', TransitiveDependency))" for n
    using classify_node_fallback [of "colors ev" r "[]" "top_level_deps_of r dd" n]
    by (auto simp: f_def)
  have loop: "classify_nodes (colors ev) r False [] (top_level_deps_of r dd)
      (nodes (graph_of r dd)) = Inr (map f (nodes (graph_of r dd)))"
    by (rule classify_nodes_map) (rule f)
  have "node_trace ev r dd w =
      Inr (zip (nodes (graph_of r dd)) (map f (nodes (graph_of r dd))))"
    by (simp add: node_trace_def build_graph_pair
        detect_communities_unavailable [OF assms] loop)
  then show ?thesis
    by (simp add: zip_map_same color_and_tag_def entry)
qed

section \<open>The claims about classification\<close>





text \<open>
  C3. The classification gives every node of the node loop exactly one tag, a value of
  the four-element type \<open>tag\<close>, and the tag is ProjectRoot if and only if the node is
  the root, whatever the community partition holds, an entry for the root included: the
  root's entry of the trace is the gold one. The palette that community colouring indexes
  is taken to be non-empty, as the one of plotly is.
\<close>

theorem root_tag_iff_root:
  "palette \<noteq> [] \<longrightarrow>
     (\<exists>as. classify_nodes palette project_name community part top_level_deps ns = Inr as
        \<and> length as = length ns
        \<and> (\<forall>i < length ns. node_tag (as ! i) = ProjectRoot \<longleftrightarrow> ns ! i = project_name)
        \<and> (\<forall>i < length ns. node_tag (as ! i)
              \<in> {ProjectRoot, Community, DirectDependency, TransitiveDependency}))
     \<and> map_sum id (\<lambda>a. (node_color a, node_tag a))
          (classify_node palette project_name community part top_level_deps project_name)
        = Inr (''#FFD700'', ProjectRoot)"
proof
  assume ne: "palette \<noteq> []"
  obtain as where as: "classify_nodes palette project_name community part top_level_deps ns
      = Inr as"
    using classify_nodes_total [OF ne] by blast
  note each = classify_nodes_Inr [OF as]
  have "\<forall>i < length ns. node_tag (as ! i) = ProjectRoot \<longleftrightarrow> ns ! i = project_name"
    using each classify_node_tag by blast
  moreover have "\<forall>i < length ns. node_tag (as ! i)
      \<in> {ProjectRoot, Community, DirectDependency, TransitiveDependency}"
    by (auto intro: tag.exhaust)
  moreover have "map_sum id (\<lambda>a. (node_color a, node_tag a))
      (classify_node palette project_name community part top_level_deps project_name)
      = Inr (''#FFD700'', ProjectRoot)"
    by (simp add: classify_node_def assign_color_root)
  ultimately show "(\<exists>as. classify_nodes palette project_name community part top_level_deps ns
        = Inr as
        \<and> length as = length ns
        \<and> (\<forall>i < length ns. node_tag (as ! i) = ProjectRoot \<longleftrightarrow> ns ! i = project_name)
        \<and> (\<forall>i < length ns. node_tag (as ! i)
              \<in> {ProjectRoot, Community, DirectDependency, TransitiveDependency}))
     \<and> map_sum id (\<lambda>a. (node_color a, node_tag a))
          (classify_node palette project_name community part top_level_deps project_name)
        = Inr (''#FFD700'', ProjectRoot)"
    using as each by blast
qed

theorem root_tag_iff_root_witness:
  "[''#AA0DFE'', ''#3283FE''] \<noteq> []
   \<and> map_sum id (map node_tag)
       (classify_nodes [''#AA0DFE'', ''#3283FE''] ''proj'' True
          [(''proj'', 0), (''x'', 1)] [''d''] [''proj'', ''x'', ''d'', ''t''])
     = Inr [ProjectRoot, Community, DirectDependency, TransitiveDependency]
   \<and> map_sum id (\<lambda>a. (node_color a, node_tag a))
       (classify_node [''#AA0DFE'', ''#3283FE''] ''proj'' True
          [(''proj'', 0), (''x'', 1)] [''d''] ''proj'')
     = Inr (''#FFD700'', ProjectRoot)"
  using root_tag_iff_root
    [of "[''#AA0DFE'', ''#3283FE'']" "''proj''" True "[(''proj'', 0), (''x'', 1)]" "[''d'']"
        "[''proj'', ''x'', ''d'', ''t'']"]
  by (simp add: classify_node_def assign_color_def)

lemma str_int_4: "str_int 4 = ''4''"
  by code_simp

lemma str_int_12: "str_int 12 = ''12''"
  by code_simp

lemma str_int_minus_5: "str_int (- 5) = ''-5''"
  by code_simp

text \<open>
  C4. When the community partition exists and a node other than the root has an entry
  in it, the node's colour is the palette's entry at the community id modulo the length
  of the palette, an index inside the palette, its title is \<open>Community {id}: {node}\<close>,
  and any other such node with the same id has the same colour: the colour depends on
  the palette and the id only.
\<close>

theorem community_color_is_palette_entry:
  "node \<noteq> project_name \<and> map_of part node = Some community_id \<and> palette \<noteq> [] \<longrightarrow>
     map_sum id (\<lambda>a. (node_color a, node_title a, coloring_method a, node_tag a))
       (classify_node palette project_name True part top_level_deps node)
     = Inr (palette ! nat (community_id mod int (length palette)),
            ''Community '' @ str_int community_id @ '': '' @ node, ''Community'', Community)
     \<and> nat (community_id mod int (length palette)) < length palette
     \<and> (other \<noteq> project_name \<and> map_of part other = Some community_id \<longrightarrow>
          map_sum id node_color
            (classify_node palette project_name True part top_level_deps other)
          = map_sum id node_color
              (classify_node palette project_name True part top_level_deps node))"
proof
  assume h: "node \<noteq> project_name \<and> map_of part node = Some community_id \<and> palette \<noteq> []"
  then have ne: "palette \<noteq> []" and n: "node \<noteq> project_name"
    and e: "map_of part node = Some community_id"
    by simp_all
  have col: "map_sum id node_color
        (classify_node palette project_name True part top_level_deps m)
      = Inr (palette ! nat (community_id mod int (length palette)))"
    if "m \<noteq> project_name" "map_of part m = Some community_id" for m
    by (simp add: classify_node_def assign_color_community [OF that ne])
  have "0 < int (length palette)" using ne by simp
  then have "nat (community_id mod int (length palette)) < length palette"
    by (metis nat_less_iff pos_mod_bound pos_mod_sign)
  moreover have "map_sum id (\<lambda>a. (node_color a, node_title a, coloring_method a, node_tag a))
       (classify_node palette project_name True part top_level_deps node)
     = Inr (palette ! nat (community_id mod int (length palette)),
            ''Community '' @ str_int community_id @ '': '' @ node, ''Community'', Community)"
    by (simp add: classify_node_def assign_color_community [OF n e ne])
  ultimately show "map_sum id (\<lambda>a. (node_color a, node_title a, coloring_method a, node_tag a))
       (classify_node palette project_name True part top_level_deps node)
     = Inr (palette ! nat (community_id mod int (length palette)),
            ''Community '' @ str_int community_id @ '': '' @ node, ''Community'', Community)
     \<and> nat (community_id mod int (length palette)) < length palette
     \<and> (other \<noteq> project_name \<and> map_of part other = Some community_id \<longrightarrow>
          map_sum id node_color
            (classify_node palette project_name True part top_level_deps other)
          = map_sum id node_color
              (classify_node palette project_name True part top_level_deps node))"
    using col [OF n e] col [of other] by simp
qed

theorem community_color_is_palette_entry_witness:
  "''x'' \<noteq> ''proj'' \<and> map_of [(''proj'', 0), (''x'', 4), (''z'', 4)] ''x'' = Some 4
   \<and> [''#AA0DFE'', ''#3283FE'', ''#85660D''] \<noteq> []
   \<and> map_sum id (\<lambda>a. (node_color a, node_title a, coloring_method a, node_tag a))
       (classify_node [''#AA0DFE'', ''#3283FE'', ''#85660D''] ''proj'' True
          [(''proj'', 0), (''x'', 4), (''z'', 4)] [] ''x'')
     = Inr (''#3283FE'', ''Community 4: x'', ''Community'', Community)
   \<and> ''z'' \<noteq> ''proj'' \<and> map_of [(''proj'', 0), (''x'', 4), (''z'', 4)] ''z'' = Some 4
   \<and> map_sum id node_color
       (classify_node [''#AA0DFE'', ''#3283FE'', ''#85660D''] ''proj'' True
          [(''proj'', 0), (''x'', 4), (''z'', 4)] [] ''z'')
     = Inr ''#3283FE''"
  using community_color_is_palette_entry
    [of "''x''" "''proj''" "[(''proj'', 0), (''x'', 4), (''z'', 4)]" 4
        "[''#AA0DFE'', ''#3283FE'', ''#85660D'']" "[]" "''z''"]
  by (simp add: str_int_4 classify_node_def assign_color_def)

text \<open>
  C5. When no community partition is available, every node other than the root is
  tagged DirectDependency if it is in the DirectSet of the graph and
  TransitiveDependency otherwise; the first get the one colour \<open>#8A2BE2\<close>, the others
  the one colour \<open>#4169E1\<close>, and the two differ. When the detection module is not
  installed the whole node trace is that of the fallback.
\<close>

theorem fallback_matches_direct_set:
  "(node \<noteq> project_name \<longrightarrow>
      map_sum id (\<lambda>a. (node_tag a, node_color a))
        (classify_node palette project_name False part
           (top_level_deps_of project_name dep_data) node)
      = Inr (if node \<in> set (direct_set project_name (graph_of project_name dep_data))
             then (DirectDependency, ''#8A2BE2'')
             else (TransitiveDependency, ''#4169E1'')))
   \<and> ''#8A2BE2'' \<noteq> ''#4169E1''
   \<and> (\<not> find_spec_community ev \<longrightarrow>
        map_sum id (map color_and_tag) (node_trace ev project_name dep_data w) =
          Inr (map (\<lambda>n. (n, if n = project_name then (''#FFD700'', ProjectRoot)
                 else if n \<in> set (direct_set project_name (graph_of project_name dep_data))
                 then (''#8A2BE2'', DirectDependency)
                 else (''#4169E1'', TransitiveDependency)))
               (nodes (graph_of project_name dep_data))))"
proof (intro conjI impI)
  assume n: "node \<noteq> project_name"
  then have "node \<in> set (direct_set project_name (graph_of project_name dep_data)) \<longleftrightarrow>
      node \<in> set (top_level_deps_of project_name dep_data)"
    by (simp add: direct_set_graph_of)
  then show "map_sum id (\<lambda>a. (node_tag a, node_color a))
        (classify_node palette project_name False part
           (top_level_deps_of project_name dep_data) node)
      = Inr (if node \<in> set (direct_set project_name (graph_of project_name dep_data))
             then (DirectDependency, ''#8A2BE2'')
             else (TransitiveDependency, ''#4169E1''))"
    by (simp add: classify_node_def assign_color_fallback [OF n])
next
  show "''#8A2BE2'' \<noteq> ''#4169E1''" by simp
next
  assume off: "\<not> find_spec_community ev"
  have "(if n = project_name then (''#FFD700'', ProjectRoot)
         else if n \<in> set (top_level_deps_of project_name dep_data)
         then (''#8A2BE2'', DirectDependency)
         else (''#4169E1'', TransitiveDependency))
      = (if n = project_name then (''#FFD700'', ProjectRoot)
         else if n \<in> set (direct_set project_name (graph_of project_name dep_data))
         then (''#8A2BE2'', DirectDependency)
         else (''#4169E1'', TransitiveDependency))" for n
    by (simp add: direct_set_graph_of)
  then show "map_sum id (map color_and_tag) (node_trace ev project_name dep_data w) =
      Inr (map (\<lambda>n. (n, if n = project_name then (''#FFD700'', ProjectRoot)
             else if n \<in> set (direct_set project_name (graph_of project_name dep_data))
             then (''#8A2BE2'', DirectDependency)
             else (''#4169E1'', TransitiveDependency)))
           (nodes (graph_of project_name dep_data)))"
    by (simp add: node_trace_fallback [OF off])
qed

theorem fallback_matches_direct_set_witness:
  "''a'' \<noteq> ''r''
   \<and> ''a'' \<in> set (direct_set ''r'' (graph_of ''r'' [(''a'', [''c''])]))
   \<and> map_sum id (\<lambda>a. (node_tag a, node_color a))
       (classify_node [] ''r'' False [] (top_level_deps_of ''r'' [(''a'', [''c''])]) ''a'')
     = Inr (DirectDependency, ''#8A2BE2'')
   \<and> \<not> find_spec_community
       \<lparr>requirements_exists = True, run_pipreqs = None,
        run_pipdeptree = Inl FileNotFoundError, json_loads = (\<lambda>s. Inl JSONDecodeError),
        find_spec_community = False, import_community = None,
        best_partition = (\<lambda>G. Inl ImportError), colors = [],
        write_html = (\<lambda>f. None), write_image = (\<lambda>f. None), str_exn = (\<lambda>e. [])\<rparr>
   \<and> map_sum id (map color_and_tag)
        (node_trace
           \<lparr>requirements_exists = True, run_pipreqs = None,
            run_pipdeptree = Inl FileNotFoundError, json_loads = (\<lambda>s. Inl JSONDecodeError),
            find_spec_community = False, import_community = None,
            best_partition = (\<lambda>G. Inl ImportError), colors = [],
            write_html = (\<lambda>f. None), write_image = (\<lambda>f. None), str_exn = (\<lambda>e. [])\<rparr>
           ''r'' [(''a'', [''c''])] \<lparr>files = Map.empty, stdout = [], stderr = []\<rparr>) =
         Inr [(''a'', ''#8A2BE2'', DirectDependency),
              (''c'', ''#4169E1'', TransitiveDependency),
              (''r'', ''#FFD700'', ProjectRoot)]"
proof -
  have g: "graph_of ''r'' [(''a'', [''c''])] =
      \<lparr>nodes = [''a'', ''c'', ''r''],
       edges = [((''a'', ''c''), ''depends on''), ((''r'', ''a''), ''direct requirement'')]\<rparr>"
    by code_simp
  show ?thesis
    using fallback_matches_direct_set
      [of "''a''" "''r''" "[]" "[]" "[(''a'', [''c''])]"
        "\<lparr>requirements_exists = True, run_pipreqs = None,
        run_pipdeptree = Inl FileNotFoundError, json_loads = (\<lambda>s. Inl JSONDecodeError),
        find_spec_community = False, import_community = None,
        best_partition = (\<lambda>G. Inl ImportError), colors = [],
        write_html = (\<lambda>f. None), write_image = (\<lambda>f. None), str_exn = (\<lambda>e. [])\<rparr>"
        "\<lparr>files = Map.empty, stdout = [], stderr = []\<rparr>"]
    by (simp add: g direct_set_def)
qed

section \<open>The claims about dependency resolution\<close>

text \<open>The repository's own test of the success path (\<open>test_04\<close>), on the model.\<close>

lemma transform_tree_test_04:
  "transform_tree
     (JArr [JObj [(''package'', JObj [(''key'', JStr ''pkg1'')]),
                  (''dependencies'', JArr [JObj [(''key'', JStr ''depA'')],
                                           JObj [(''key'', JStr ''depB'')]])],
            JObj [(''package'', JObj [(''key'', JStr ''depA'')]),
                  (''dependencies'', JArr [])]])
   = Inr (py_dict_of [(''pkg1'', [''depA'', ''depB'']), (''depA'', [])])"
  by code_simp

text \<open>
  Output of the wrong shape raises in the loop when a value that must be a dict or an
  iterable is not one; an entry without a package key is skipped without a raise.
\<close>

lemma transform_tree_not_iterable:
  "tree = JNull \<or> tree = JBool b \<or> tree = JNum n \<Longrightarrow> transform_tree tree = Inl TypeError"
  by (auto simp: transform_tree_def py_iter_def)

lemma transform_tree_item_not_dict:
  "transform_tree (JArr (JStr s # rest)) = Inl AttributeError"
  by (simp add: transform_tree_def py_iter_def add_package_def py_get_def)

lemma transform_tree_skips_nameless: "transform_tree (JArr [JObj []]) = Inr []"
  by (simp add: transform_tree_def py_iter_def add_package_def py_get_def truthy_def)

text \<open>
  Step 0 returns unless pipreqs raises something other than the two caught classes; an
  exception of another class leaves \<open>resolve_dependencies\<close> before pipdeptree is run.
\<close>

lemma ensure_requirements_returns:
  "fst (ensure_requirements ev w) = Inr () \<longleftrightarrow>
     requirements_exists ev \<or> run_pipreqs ev = None
     \<or> (\<exists>err. run_pipreqs ev = Some (CalledProcessError err))
     \<or> run_pipreqs ev = Some FileNotFoundError"
  by (auto simp: ensure_requirements_def Let_def split: option.split py_exn.split)

lemma pipreqs_raise_propagates:
  "\<not> requirements_exists ev \<Longrightarrow> run_pipreqs ev = Some (OtherException msg) \<Longrightarrow>
     fst (resolve_dependencies ev w) = Inl (OtherException msg)"
  by (simp add: resolve_dependencies_def ensure_requirements_def Let_def)

lemma resolve_dependencies_success:
  "fst (ensure_requirements ev w) = Inr () \<Longrightarrow> query_pipdeptree ev = Inr d \<Longrightarrow>
     resolve_dependencies ev w = (Inr d, snd (ensure_requirements ev w))"
  by (cases "ensure_requirements ev w") (simp add: resolve_dependencies_def)





text \<open>
  The resolver of \<open>grapher.py\<close> does return something else than the fallback when
  pipdeptree answers: the next claim is not about a function that could not differ.
\<close>

lemma resolver_can_differ:
  "requirements_exists ev \<Longrightarrow> run_pipdeptree ev = Inr out \<Longrightarrow>
   json_loads ev out = Inr (JArr []) \<Longrightarrow>
     fst (resolve_dependencies ev w) = Inr []
     \<and> Inr [] \<noteq> (Inr (py_dict_of MOCK_DEPENDENCY_DATA) :: py_exn + py_dict)"
  by (simp add: resolve_dependencies_def ensure_requirements_def query_pipdeptree_def
      transform_tree_def py_iter_def py_dict_of_def MOCK_DEPENDENCY_DATA_def)

text \<open>
  C7. The \<open>resolve_dependencies\<close> that \<open>main\<close> calls returns \<open>MOCK_DEPENDENCY_DATA\<close>
  on every call, whatever the state of the world. The resolver of \<open>grapher.py\<close> is not
  on the path of \<open>main\<close>: the mapping that \<open>main\<close> hands to
  \<open>generate_dependency_graph\<close> is the mock one, and nothing that the pipdeptree
  resolver reads (whether \<open>requirements.txt\<close> exists, the outcomes of pipreqs and of
  pipdeptree, the parser) changes what \<open>main\<close> does.
\<close>

theorem main_uses_mock_data:
  "fst (main_resolve_dependencies w) = MOCK_DEPENDENCY_DATA
   \<and> main ev a w =
       (case generate_dependency_graph ev (args_project_name a) MOCK_DEPENDENCY_DATA
               (args_output_prefix a @ ''.html'') (args_output_prefix a @ ''_preview.png'')
               (print_err ''--- WARNING: Using MOCK Dependency Data ---'' w) of
          (Inl e, w2) \<Rightarrow> (Inl e, w2)
        | (Inr u, w2) \<Rightarrow>
            (Inr (), report_results (args_output_prefix a @ ''.html'')
                       (args_output_prefix a @ ''_preview.png'') w2))
   \<and> main (ev\<lparr>requirements_exists := exists, run_pipreqs := pipreqs,
               run_pipdeptree := pipdeptree, json_loads := loads\<rparr>) a w
       = main ev a w"
proof -
  let ?ev = "ev\<lparr>requirements_exists := exists, run_pipreqs := pipreqs,
      run_pipdeptree := pipdeptree, json_loads := loads\<rparr>"
  have failed: "detection_failed ?ev x w' = detection_failed ev x w'" for x w'
    by (simp add: detection_failed_def)
  have detect: "detect_communities ?ev G w' = detect_communities ev G w'" for G w'
    by (simp add: detect_communities_def failed
        cong: if_cong option.case_cong sum.case_cong)
  have export: "export_image ?ev fig s w' = export_image ev fig s w'" for fig s w'
    by (simp add: export_image_def screenshot_warning_def cong: option.case_cong)
  have save: "save_outputs ?ev fig h s w' = save_outputs ev fig h s w'" for fig h s w'
    by (simp add: save_outputs_def export cong: option.case_cong)
  have same: "generate_dependency_graph ?ev r dd h s w'
      = generate_dependency_graph ev r dd h s w'" for r dd h s w'
    by (simp add: generate_dependency_graph_def detect save
        cong: prod.case_cong sum.case_cong)
  show ?thesis
    by (simp add: main_def main_resolve_dependencies_def Let_def same)
qed

section \<open>The claim about the image export\<close>

lemma save_outputs_image_fails:
  "write_html ev h = None \<Longrightarrow> write_image ev s = Some e \<Longrightarrow>
     save_outputs ev fig h s w =
       (Inr (),
        w\<lparr>files := (files w)(h \<mapsto> Html fig),
          stdout := stdout w @ [''Interactive 3D graph saved to: '' @ h,
                                ''Capturing static preview using kaleido...''],
          stderr := stderr w @ [screenshot_warning ev e]\<rparr>)"
  by (simp add: save_outputs_def export_image_def print_out_def print_err_def Let_def)

lemma save_outputs_html_fails:
  "write_html ev h = Some e \<Longrightarrow> save_outputs ev fig h s w = (Inl e, w)"
  by (simp add: save_outputs_def)

lemma map_snd_zip_same: "length as = length ns \<Longrightarrow> map snd (zip ns as) = as"
  by (simp add: map_snd_zip)

text \<open>When the node loop has not raised, what remains of the function is steps 5 to 7.\<close>

lemma generate_after_node_loop:
  assumes "node_trace ev r dd w = Inr tr"
  shows "generate_dependency_graph ev r dd h s w =
     save_outputs ev
       \<lparr>fig_title = figure_title r, fig_nodes = map snd tr,
        fig_edge_labels = map edge_label (edges_view (graph_of r dd))\<rparr>
       h s (snd (detect_communities ev (graph_of r dd) w))"
proof -
  obtain community part w1 where
    d: "detect_communities ev (graph_of r dd) w = ((community, part), w1)"
    by (metis surj_pair)
  from assms d obtain as where
    as: "classify_nodes (colors ev) r community part (top_level_deps_of r dd)
           (nodes (graph_of r dd)) = Inr as"
    and tr: "tr = zip (nodes (graph_of r dd)) as"
    by (auto simp: node_trace_def build_graph_pair split: sum.splits)
  have "map snd tr = as"
    using classify_nodes_Inr [OF as] by (simp add: tr map_snd_zip_same)
  then show ?thesis
    by (simp add: generate_dependency_graph_def build_graph_pair d as)
qed

lemma generate_node_loop_raises:
  "node_trace ev r dd w = Inl e \<Longrightarrow>
     fst (generate_dependency_graph ev r dd h s w) = Inl e"
  by (auto simp: node_trace_def generate_dependency_graph_def build_graph_pair
      split: prod.splits sum.splits)

text \<open>
  C8. Whenever the image export is attempted, that is, the figure has been built and
  the HTML document written, every exception \<open>e\<close> that \<open>write_image\<close> raises is caught:
  \<open>generate_dependency_graph\<close> returns to its caller, the last line on the error
  stream is the warning with the text of \<open>e\<close>, and the HTML document written before
  the attempt is in place, the only change to the files. The export that raised is
  taken to have written nothing.
\<close>

theorem image_export_failure_is_caught:
  "node_trace ev project_name dep_data w = Inr tr
   \<and> write_html ev html_filename = None
   \<and> write_image ev screenshot_filename = Some e
   \<longrightarrow> fst (generate_dependency_graph ev project_name dep_data
              html_filename screenshot_filename w) = Inr ()
     \<and> files (snd (generate_dependency_graph ev project_name dep_data
              html_filename screenshot_filename w))
       = (files w)(html_filename \<mapsto>
            Html \<lparr>fig_title = figure_title project_name, fig_nodes = map snd tr,
                  fig_edge_labels =
                    map edge_label (edges_view (graph_of project_name dep_data))\<rparr>)
     \<and> last (stderr (snd (generate_dependency_graph ev project_name dep_data
              html_filename screenshot_filename w)))
       = screenshot_warning ev e
     \<and> screenshot_warning ev e =
         ''WARNING: Could not generate screenshot using kaleido. ''
           @ ''Please ensure '' @ [CHR 0x27] @ ''pip install kaleido'' @ [CHR 0x27]
           @ '' is run. Error: '' @ str_exn ev e"
proof
  assume h: "node_trace ev project_name dep_data w = Inr tr
   \<and> write_html ev html_filename = None
   \<and> write_image ev screenshot_filename = Some e"
  then have t: "node_trace ev project_name dep_data w = Inr tr"
    and wh: "write_html ev html_filename = None"
    and wi: "write_image ev screenshot_filename = Some e"
    by simp_all
  show "fst (generate_dependency_graph ev project_name dep_data
              html_filename screenshot_filename w) = Inr ()
     \<and> files (snd (generate_dependency_graph ev project_name dep_data
              html_filename screenshot_filename w))
       = (files w)(html_filename \<mapsto>
            Html \<lparr>fig_title = figure_title project_name, fig_nodes = map snd tr,
                  fig_edge_labels =
                    map edge_label (edges_view (graph_of project_name dep_data))\<rparr>)
     \<and> last (stderr (snd (generate_dependency_graph ev project_name dep_data
              html_filename screenshot_filename w)))
       = screenshot_warning ev e
     \<and> screenshot_warning ev e =
         ''WARNING: Could not generate screenshot using kaleido. ''
           @ ''Please ensure '' @ [CHR 0x27] @ ''pip install kaleido'' @ [CHR 0x27]
           @ '' is run. Error: '' @ str_exn ev e"
    by (simp add: generate_after_node_loop [OF t] save_outputs_image_fails [OF wh wi]
        detect_communities_files screenshot_warning_def)
qed

theorem image_export_failure_is_caught_witness:
  "node_trace
     \<lparr>requirements_exists = True, run_pipreqs = None,
      run_pipdeptree = Inl FileNotFoundError, json_loads = (\<lambda>s. Inl JSONDecodeError),
      find_spec_community = False, import_community = None,
      best_partition = (\<lambda>G. Inl ImportError), colors = [],
      write_html = (\<lambda>f. None), write_image = (\<lambda>f. Some ValueError),
      str_exn = (\<lambda>e. ''no kaleido'')\<rparr>
     ''p'' [] \<lparr>files = Map.empty, stdout = [], stderr = []\<rparr>
   = Inr [(''p'',
           \<lparr>node_text = ''<b>p</b>'',
            node_info = ''p<br>Root: p<br>Coloring Method: Project Root'',
            node_size = 30, node_color = ''#FFD700'', node_title = ''Root: p'',
            coloring_method = ''Project Root'', node_tag = ProjectRoot\<rparr>)]
   \<and> fst (generate_dependency_graph
         \<lparr>requirements_exists = True, run_pipreqs = None,
          run_pipdeptree = Inl FileNotFoundError, json_loads = (\<lambda>s. Inl JSONDecodeError),
          find_spec_community = False, import_community = None,
          best_partition = (\<lambda>G. Inl ImportError), colors = [],
          write_html = (\<lambda>f. None), write_image = (\<lambda>f. Some ValueError),
          str_exn = (\<lambda>e. ''no kaleido'')\<rparr>
         ''p'' [] ''o.html'' ''o_preview.png''
         \<lparr>files = Map.empty, stdout = [], stderr = []\<rparr>) = Inr ()
   \<and> last (stderr (snd (generate_dependency_graph
         \<lparr>requirements_exists = True, run_pipreqs = None,
          run_pipdeptree = Inl FileNotFoundError, json_loads = (\<lambda>s. Inl JSONDecodeError),
          find_spec_community = False, import_community = None,
          best_partition = (\<lambda>G. Inl ImportError), colors = [],
          write_html = (\<lambda>f. None), write_image = (\<lambda>f. Some ValueError),
          str_exn = (\<lambda>e. ''no kaleido'')\<rparr>
         ''p'' [] ''o.html'' ''o_preview.png''
         \<lparr>files = Map.empty, stdout = [], stderr = []\<rparr>)))
     = ''WARNING: Could not generate screenshot using kaleido. ''
         @ ''Please ensure '' @ [CHR 0x27] @ ''pip install kaleido'' @ [CHR 0x27]
         @ '' is run. Error: no kaleido''"
proof -
  have t: "node_trace
     \<lparr>requirements_exists = True, run_pipreqs = None,
      run_pipdeptree = Inl FileNotFoundError, json_loads = (\<lambda>s. Inl JSONDecodeError),
      find_spec_community = False, import_community = None,
      best_partition = (\<lambda>G. Inl ImportError), colors = [],
      write_html = (\<lambda>f. None), write_image = (\<lambda>f. Some ValueError),
      str_exn = (\<lambda>e. ''no kaleido'')\<rparr>
     ''p'' [] \<lparr>files = Map.empty, stdout = [], stderr = []\<rparr>
   = Inr [(''p'',
           \<lparr>node_text = ''<b>p</b>'',
            node_info = ''p<br>Root: p<br>Coloring Method: Project Root'',
            node_size = 30, node_color = ''#FFD700'', node_title = ''Root: p'',
            coloring_method = ''Project Root'', node_tag = ProjectRoot\<rparr>)]"
    by (simp add: node_trace_def build_graph_def DiGraph_def add_node_def
        detect_communities_def classify_node_def assign_color_def)
  show ?thesis
    using t image_export_failure_is_caught
      [of "\<lparr>requirements_exists = True, run_pipreqs = None,
          run_pipdeptree = Inl FileNotFoundError, json_loads = (\<lambda>s. Inl JSONDecodeError),
          find_spec_community = False, import_community = None,
          best_partition = (\<lambda>G. Inl ImportError), colors = [],
          write_html = (\<lambda>f. None), write_image = (\<lambda>f. Some ValueError),
          str_exn = (\<lambda>e. ''no kaleido'')\<rparr>"
          "''p''" "[]" "\<lparr>files = Map.empty, stdout = [], stderr = []\<rparr>" _
          "''o.html''" "''o_preview.png''" ValueError]
    by (simp add: screenshot_warning_def)
qed

end
